theory Spec2Isabelle
  imports Main
begin

section \<open>The administrative interface seen by the two scripts\<close>

text \<open>
  Both scripts are linear recipes of calls into the scripting shell of the application
  server. A run is modelled by the list of calls it issues, in order, against a server
  whose answers are functions of the calls issued so far. Any call may raise; the
  exception then propagates and ends the script.
\<close>

datatype mbean = MBean string

datatype val =
    Str string
  | Num int
  | PyNone
  | Obj mbean
  | ObjectName string
  | Array "val list"

datatype receiver = Cmo | On mbean

datatype call =
    SystemSetProperty string string
  | Connect string string string
  | Get string
  | Edit
  | StartEdit
  | Cd string
  | Ls
  | GetMBean string
  | Create string string
  | SetAttr string val
  | SetOption string string
  | ReadTemplate string
  | WriteDomain string
  | CloseTemplate
  | Exit
  | Save
  | Activate string
  | Disconnect
  | Invoke receiver string "val list"

datatype error = ValueError string | RemoteError call

text \<open>
  The server: whether a call raises, and what the calls that return a value answer.
  Each is a function of the calls issued before.
\<close>

record remote =
  raises :: "call list \<Rightarrow> call \<Rightarrow> bool"
  ls_reply :: "call list \<Rightarrow> string list"
  get_reply :: "call list \<Rightarrow> string \<Rightarrow> string"
  getMBean_reply :: "call list \<Rightarrow> string \<Rightarrow> val"
  create_reply :: "call list \<Rightarrow> string \<Rightarrow> string \<Rightarrow> mbean"

record world =
  server :: remote
  issued :: "call list"
  stdout :: "string list"

type_synonym 'a wlst = "world \<Rightarrow> (error + 'a) \<times> world"

definition return_wlst :: "'a \<Rightarrow> 'a wlst" where
  "return_wlst x w = (Inr x, w)"

definition bind_wlst :: "'a wlst \<Rightarrow> ('a \<Rightarrow> 'b wlst) \<Rightarrow> 'b wlst" where
  "bind_wlst m f w = (case m w of (Inl e, w') \<Rightarrow> (Inl e, w') | (Inr x, w') \<Rightarrow> f x w')"

definition lift :: "error + 'a \<Rightarrow> 'a wlst" where
  "lift r w = (r, w)"

fun seq_all :: "unit wlst list \<Rightarrow> unit wlst" where
  "seq_all [] = return_wlst ()"
| "seq_all (m # ms) = bind_wlst m (\<lambda>_. seq_all ms)"

definition py_if :: "bool \<Rightarrow> unit wlst \<Rightarrow> unit wlst" where
  "py_if b m = (if b then m else return_wlst ())"

definition issue :: "call \<Rightarrow> 'a \<Rightarrow> 'a wlst" where
  "issue c x w =
     (if raises (server w) (issued w) c
      then (Inl (RemoteError c), w\<lparr>issued := issued w @ [c]\<rparr>)
      else (Inr x, w\<lparr>issued := issued w @ [c]\<rparr>))"

definition print :: "string \<Rightarrow> unit wlst" where
  "print s w = (Inr (), w\<lparr>stdout := stdout w @ [s]\<rparr>)"

definition system_setProperty :: "string \<Rightarrow> string \<Rightarrow> unit wlst" where
  "system_setProperty k v = issue (SystemSetProperty k v) ()"

definition connect :: "string \<Rightarrow> string \<Rightarrow> string \<Rightarrow> unit wlst" where
  "connect user pass url = issue (Connect user pass url) ()"

definition get :: "string \<Rightarrow> string wlst" where
  "get attr w = issue (Get attr) (get_reply (server w) (issued w) attr) w"

definition edit :: "unit wlst" where
  "edit = issue Edit ()"

definition startEdit :: "unit wlst" where
  "startEdit = issue StartEdit ()"

definition cd :: "string \<Rightarrow> unit wlst" where
  "cd path = issue (Cd path) ()"

definition ls :: "string list wlst" where
  "ls w = issue Ls (ls_reply (server w) (issued w)) w"

definition getMBean :: "string \<Rightarrow> val wlst" where
  "getMBean path w = issue (GetMBean path) (getMBean_reply (server w) (issued w) path) w"

definition create :: "string \<Rightarrow> string \<Rightarrow> mbean wlst" where
  "create name kind w = issue (Create name kind) (create_reply (server w) (issued w) name kind) w"

definition set_attr :: "string \<Rightarrow> val \<Rightarrow> unit wlst" where
  "set_attr name v = issue (SetAttr name v) ()"

definition setOption :: "string \<Rightarrow> string \<Rightarrow> unit wlst" where
  "setOption name v = issue (SetOption name v) ()"

definition readTemplate :: "string \<Rightarrow> unit wlst" where
  "readTemplate path = issue (ReadTemplate path) ()"

definition writeDomain :: "string \<Rightarrow> unit wlst" where
  "writeDomain path = issue (WriteDomain path) ()"

definition closeTemplate :: "unit wlst" where
  "closeTemplate = issue CloseTemplate ()"

definition exit_wlst :: "unit wlst" where
  "exit_wlst = issue Exit ()"

definition save :: "unit wlst" where
  "save = issue Save ()"

definition activate :: "string \<Rightarrow> unit wlst" where
  "activate block = issue (Activate block) ()"

definition disconnect :: "unit wlst" where
  "disconnect = issue Disconnect ()"

definition invoke :: "receiver \<Rightarrow> string \<Rightarrow> val list \<Rightarrow> unit wlst" where
  "invoke obj meth args = issue (Invoke obj meth args) ()"

definition start :: "remote \<Rightarrow> world" where
  "start r = \<lparr>server = r, issued = [], stdout = []\<rparr>"


section \<open>Strings and integers of the scripting language\<close>

type_synonym environ = "string \<rightharpoonup> string"

definition environ_get :: "environ \<Rightarrow> string \<Rightarrow> string \<Rightarrow> string" where
  "environ_get environ key dflt = (case environ key of None \<Rightarrow> dflt | Some v \<Rightarrow> v)"

definition is_space :: "char \<Rightarrow> bool" where
  "is_space c = (c \<in> {CHR '' '', CHR 0x09, CHR 0x0A, CHR 0x0B, CHR 0x0C, CHR 0x0D})"

definition is_digit :: "char \<Rightarrow> bool" where
  "is_digit c = (48 \<le> (of_char c :: nat) \<and> (of_char c :: nat) \<le> 57)"

definition strip :: "string \<Rightarrow> string" where
  "strip s = rev (dropWhile is_space (rev (dropWhile is_space s)))"

definition digits_value :: "string \<Rightarrow> int" where
  "digits_value ds = foldl (\<lambda>a c. 10 * a + (int (of_char c) - 48)) 0 ds"

text \<open>
  The builtin \<open>int\<close> applied to a string, base ten: surrounding white space is dropped,
  one sign is allowed, then at least one decimal digit and nothing else. Every other
  string raises ValueError.
\<close>

definition py_int :: "string \<Rightarrow> error + int" where
  "py_int s =
     (let t = strip s;
          neg = (t \<noteq> [] \<and> hd t = CHR ''-'');
          ds = (if t \<noteq> [] \<and> (hd t = CHR ''-'' \<or> hd t = CHR ''+'') then tl t else t)
      in if ds \<noteq> [] \<and> list_all is_digit ds
         then Inr (if neg then - digits_value ds else digits_value ds)
         else Inl (ValueError s))"

function str_nat :: "nat \<Rightarrow> string" where
  "str_nat n = (if n < 10 then [char_of (48 + n)] else str_nat (n div 10) @ [char_of (48 + n mod 10)])"
  by pat_completeness auto
termination
  by (relation "measure id") auto

declare str_nat.simps [simp del]

definition str_int :: "int \<Rightarrow> string" where
  "str_int i = (if i < 0 then CHR ''-'' # str_nat (nat (- i)) else str_nat (nat i))"


section \<open>create-wls-domain.py\<close>

definition domain_name :: "environ \<Rightarrow> string" where
  "domain_name environ = environ_get environ ''DOMAIN_NAME'' ''base_domain''"

definition admin_name :: "environ \<Rightarrow> string" where
  "admin_name environ = environ_get environ ''ADMIN_NAME'' ''AdminServer''"

definition admin_listen_port :: "environ \<Rightarrow> error + int" where
  "admin_listen_port environ = py_int (environ_get environ ''ADMIN_LISTEN_PORT'' ''7001'')"

definition domain_path :: "environ \<Rightarrow> string" where
  "domain_path environ = ''/u01/oracle/user_projects/domains/'' @ domain_name environ"

definition production_mode :: "environ \<Rightarrow> string" where
  "production_mode environ = environ_get environ ''PRODUCTION_MODE'' ''prod''"

definition administration_port_enabled :: "environ \<Rightarrow> string" where
  "administration_port_enabled environ = environ_get environ ''ADMINISTRATION_PORT_ENABLED'' ''true''"

definition administration_port :: "environ \<Rightarrow> error + int" where
  "administration_port environ = py_int (environ_get environ ''ADMINISTRATION_PORT'' ''9002'')"

text \<open>
  The script. The names \<open>username\<close> and \<open>password\<close> are not assigned in the file: the
  shell loads them from a properties file, so they are parameters here.
\<close>

definition create_wls_domain :: "environ \<Rightarrow> string \<Rightarrow> string \<Rightarrow> unit wlst" where
  "create_wls_domain environ username password =
     bind_wlst (lift (admin_listen_port environ)) (\<lambda>listen_port.
     bind_wlst (lift (administration_port environ)) (\<lambda>admin_port.
     seq_all [
       print (''domain_name                 : ['' @ domain_name environ @ '']''),
       print (''admin_listen_port           : ['' @ str_int listen_port @ '']''),
       print (''domain_path                 : ['' @ domain_path environ @ '']''),
       print (''production_mode             : ['' @ production_mode environ @ '']''),
       print (''admin name                  : ['' @ admin_name environ @ '']''),
       print (''administration_port_enabled : ['' @ administration_port_enabled environ @ '']''),
       print (''administration_port         : ['' @ str_int admin_port @ '']''),
       readTemplate ''/u01/oracle/wlserver/common/templates/wls/wls.jar'',
       set_attr ''Name'' (Str (domain_name environ)),
       setOption ''DomainName'' (domain_name environ),
       py_if (administration_port_enabled environ \<noteq> ''false'') (seq_all [
         set_attr ''AdministrationPort'' (Num admin_port),
         set_attr ''AdministrationPortEnabled'' (Str ''false'')]),
       cd ''/Servers/AdminServer'',
       set_attr ''Name'' (Str (admin_name environ)),
       set_attr ''ListenAddress'' (Str ''''),
       set_attr ''ListenPort'' (Num listen_port),
       py_if (administration_port_enabled environ \<noteq> ''false'') (seq_all [
         bind_wlst (create (admin_name environ) ''SSL'') (\<lambda>_. return_wlst ()),
         cd (''SSL/'' @ admin_name environ),
         set_attr ''Enabled'' (Str ''True'')]),
       cd (''/Security/'' @ domain_name environ @ ''/User/weblogic''),
       invoke Cmo ''setName'' [Str username],
       invoke Cmo ''setPassword'' [Str password],
       setOption ''OverwriteDomain'' ''true'',
       setOption ''ServerStartMode'' (production_mode environ),
       writeDomain (domain_path environ),
       closeTemplate,
       exit_wlst]))"


section \<open>setupTestJMSQueue.py\<close>

definition createJMSServer :: "string \<Rightarrow> string \<Rightarrow> unit wlst" where
  "createJMSServer adm_name jms_server_name =
     seq_all [
       cd ''/JMSServers'',
       bind_wlst ls (\<lambda>listing.
       py_if (length listing = 0) (seq_all [
         print (''No JMS Server found, creating '' @ jms_server_name),
         cd ''/'',
         invoke Cmo ''createJMSServer'' [Str jms_server_name],
         cd (''/JMSServers/'' @ jms_server_name),
         bind_wlst (getMBean (''/Servers/'' @ adm_name)) (\<lambda>target.
         invoke Cmo ''addTarget'' [target])]))]"

definition createJMSModule :: "string \<Rightarrow> string \<Rightarrow> string \<Rightarrow> unit wlst" where
  "createJMSModule jms_module_name adm_name sub_deployment_name =
     seq_all [
       print (''Creating JMS module '' @ jms_module_name),
       cd ''/JMSServers'',
       bind_wlst ls (\<lambda>jms_servers.
       seq_all [
         cd ''/'',
         bind_wlst (create jms_module_name ''JMSSystemResource'') (\<lambda>module.
         seq_all [
           bind_wlst (getMBean (''Servers/'' @ adm_name)) (\<lambda>target.
           invoke (On module) ''addTarget'' [target]),
           cd (''/SystemResources/'' @ jms_module_name),
           invoke (On module) ''createSubDeployment'' [Str sub_deployment_name],
           cd (''/SystemResources/'' @ jms_module_name @ ''/SubDeployments/'' @ sub_deployment_name),
           set_attr ''Targets''
             (Array (map (\<lambda>i. ObjectName (''com.bea:Name='' @ i @ '',Type=JMSServer'')) jms_servers))])])]"

definition getJMSModulePath :: "string \<Rightarrow> string" where
  "getJMSModulePath jms_module_name =
     ''/JMSSystemResources/'' @ jms_module_name @ ''/JMSResource/'' @ jms_module_name"

definition sub_deployment_name :: string where
  "sub_deployment_name = ''TestJMSSubdeployment''"

definition createJMSQueue :: "string \<Rightarrow> string \<Rightarrow> unit wlst" where
  "createJMSQueue jms_module_name jms_queue_name =
     seq_all [
       print (''Creating JMS queue '' @ jms_queue_name),
       cd (getJMSModulePath jms_module_name),
       invoke Cmo ''createQueue'' [Str jms_queue_name],
       cd (getJMSModulePath jms_module_name @ ''/Queues/'' @ jms_queue_name),
       invoke Cmo ''setJNDIName'' [Str (''jms/'' @ jms_queue_name)],
       invoke Cmo ''setSubDeploymentName'' [Str sub_deployment_name]]"

definition createDistributedJMSQueue :: "string \<Rightarrow> string \<Rightarrow> unit wlst" where
  "createDistributedJMSQueue jms_module_name jms_queue_name =
     seq_all [
       print (''Creating distributed JMS queue '' @ jms_queue_name),
       cd (getJMSModulePath jms_module_name),
       invoke Cmo ''createDistributedQueue'' [Str jms_queue_name],
       cd (getJMSModulePath jms_module_name @ ''/DistributedQueues/'' @ jms_queue_name),
       invoke Cmo ''setJNDIName'' [Str (''jms/'' @ jms_queue_name)]]"

definition createJMSFactory :: "string \<Rightarrow> string \<Rightarrow> unit wlst" where
  "createJMSFactory jms_module_name jms_fact_name =
     seq_all [
       print (''Creating JMS connection factory '' @ jms_fact_name),
       cd (getJMSModulePath jms_module_name),
       invoke Cmo ''createConnectionFactory'' [Str jms_fact_name],
       cd (getJMSModulePath jms_module_name @ ''/ConnectionFactories/'' @ jms_fact_name),
       invoke Cmo ''setJNDIName'' [Str (''jms/'' @ jms_fact_name)],
       invoke Cmo ''setSubDeploymentName'' [Str sub_deployment_name]]"

definition jms_module_name :: string where
  "jms_module_name = ''TestJMSModule''"

definition addMemberQueue :: "string \<Rightarrow> string \<Rightarrow> unit wlst" where
  "addMemberQueue udd_name queue_name =
     seq_all [
       cd (getJMSModulePath jms_module_name @ ''/DistributedQueues/'' @ udd_name),
       invoke Cmo ''setLoadBalancingPolicy'' [Str ''Round-Robin''],
       invoke Cmo ''createDistributedQueueMember'' [Str queue_name]]"

definition queue_name :: string where
  "queue_name = ''TestQueue''"

definition factory_name :: string where
  "factory_name = ''TestConnectionFactory''"

definition jms_server_name :: string where
  "jms_server_name = ''TestJMSServer''"

text \<open>
  The script is given the environment of its process like every program; it reads none
  of it.
\<close>

definition setupTestJMSQueue :: "environ \<Rightarrow> unit wlst" where
  "setupTestJMSQueue environ =
     bind_wlst (system_setProperty ''weblogic.security.SSL.ignoreHostnameVerification'' ''true'') (\<lambda>_.
     bind_wlst (connect ''admin'' ''Welcome1'' ''t3://localhost:7001'') (\<lambda>_.
     bind_wlst (get ''AdminServerName'') (\<lambda>adm_name.
     seq_all [
       edit,
       startEdit,
       print (''Server name: '' @ adm_name),
       createJMSServer adm_name jms_server_name,
       createJMSModule jms_module_name adm_name sub_deployment_name,
       createJMSFactory jms_module_name factory_name,
       createJMSQueue jms_module_name queue_name,
       createDistributedJMSQueue jms_module_name ''udd_queue'',
       createJMSQueue jms_module_name ''ms1@udd_queue'',
       createJMSQueue jms_module_name ''ms2@udd_queue'',
       addMemberQueue ''udd_queue'' ''ms1@udd_queue'',
       addMemberQueue ''udd_queue'' ''ms2@udd_queue'',
       save,
       activate ''true'',
       disconnect])))"


section \<open>Runs\<close>

text \<open>
  A run starts with nothing issued. Its trace is the list of calls issued, its outcome
  the exception that ended it or the value returned. \<open>quiet r\<close> answers like \<open>r\<close> and never
  raises; \<open>until_raise r h cs\<close> walks the calls \<open>cs\<close> after history \<open>h\<close> up to and including the
  first one that raises on \<open>r\<close>, and returns that call, if any, with the calls walked.
\<close>

definition trace :: "'a wlst \<Rightarrow> remote \<Rightarrow> call list" where
  "trace m r = issued (snd (m (start r)))"

definition outcome :: "'a wlst \<Rightarrow> remote \<Rightarrow> error + 'a" where
  "outcome m r = fst (m (start r))"

definition quiet :: "remote \<Rightarrow> remote" where
  "quiet r = r\<lparr>raises := \<lambda>_ _. False\<rparr>"

fun until_raise :: "remote \<Rightarrow> call list \<Rightarrow> call list \<Rightarrow> call option \<times> call list" where
  "until_raise r h [] = (None, [])"
| "until_raise r h (c # cs) =
     (if raises r h c then (Some c, [c])
      else (fst (until_raise r (h @ [c]) cs), c # snd (until_raise r (h @ [c]) cs)))"

definition faithful :: "'a wlst \<Rightarrow> bool" where
  "faithful m \<longleftrightarrow> (\<forall>w. \<exists>new.
      server (snd (m (w\<lparr>server := quiet (server w)\<rparr>))) = quiet (server w) \<and>
      issued (snd (m (w\<lparr>server := quiet (server w)\<rparr>))) = issued w @ new \<and>
      (case fst (until_raise (server w) (issued w) new) of
         None \<Rightarrow> m w = (fst (m (w\<lparr>server := quiet (server w)\<rparr>)),
                         (snd (m (w\<lparr>server := quiet (server w)\<rparr>)))\<lparr>server := server w\<rparr>)
       | Some c \<Rightarrow> fst (m w) = Inl (RemoteError c) \<and> server (snd (m w)) = server w \<and>
                   issued (snd (m w)) = issued w @ snd (until_raise (server w) (issued w) new)))"

fun calls_ok :: "remote \<Rightarrow> call list \<Rightarrow> call list \<Rightarrow> bool" where
  "calls_ok r h [] = True"
| "calls_ok r h (c # cs) = (\<not> raises r h c \<and> calls_ok r (h @ [c]) cs)"

fun guarded_step :: "call \<Rightarrow> bool" where
  "guarded_step (SetAttr name v) =
     (name = ''AdministrationPort'' \<or> name = ''AdministrationPortEnabled'' \<or> name = ''Enabled'')"
| "guarded_step (Create name kind) = (kind = ''SSL'')"
| "guarded_step (Cd path) = (take 4 path = ''SSL/'')"
| "guarded_step _ = False"

definition test_server :: "string list \<Rightarrow> (call list \<Rightarrow> call \<Rightarrow> bool) \<Rightarrow> remote" where
  "test_server existing failing =
     \<lparr>raises = failing,
      ls_reply = (\<lambda>h. existing @
         (if Invoke Cmo ''createJMSServer'' [Str ''TestJMSServer''] \<in> set h then [''TestJMSServer''] else [])),
      get_reply = (\<lambda>h attr. ''AdminServer''),
      getMBean_reply = (\<lambda>h path. Obj (MBean path)),
      create_reply = (\<lambda>h name kind. MBean name)\<rparr>"

definition first_listing :: "remote \<Rightarrow> string list" where
  "first_listing r = ls_reply r
     [SystemSetProperty ''weblogic.security.SSL.ignoreHostnameVerification'' ''true'',
      Connect ''admin'' ''Welcome1'' ''t3://localhost:7001'',
      Get ''AdminServerName'', Edit, StartEdit, Cd ''/JMSServers'']"

definition provisioning_calls ::
  "bool \<Rightarrow> string \<Rightarrow> val \<Rightarrow> string list \<Rightarrow> mbean \<Rightarrow> val \<Rightarrow> call list" where
  "provisioning_calls fresh adm target1 listing2 module target2 =
    [SystemSetProperty ''weblogic.security.SSL.ignoreHostnameVerification'' ''true'',
     Connect ''admin'' ''Welcome1'' ''t3://localhost:7001'',
     Get ''AdminServerName'', Edit, StartEdit,
     Cd ''/JMSServers'', Ls] @
    (if fresh then
      [Cd ''/'', Invoke Cmo ''createJMSServer'' [Str ''TestJMSServer''],
       Cd ''/JMSServers/TestJMSServer'', GetMBean (''/Servers/'' @ adm),
       Invoke Cmo ''addTarget'' [target1]]
     else []) @
    [Cd ''/JMSServers'', Ls, Cd ''/'',
     Create ''TestJMSModule'' ''JMSSystemResource'',
     GetMBean (''Servers/'' @ adm),
     Invoke (On module) ''addTarget'' [target2],
     Cd ''/SystemResources/TestJMSModule'',
     Invoke (On module) ''createSubDeployment'' [Str ''TestJMSSubdeployment''],
     Cd ''/SystemResources/TestJMSModule/SubDeployments/TestJMSSubdeployment'',
     SetAttr ''Targets'' (Array (map (\<lambda>i. ObjectName (''com.bea:Name='' @ i @ '',Type=JMSServer'')) listing2)),
     Cd ''/JMSSystemResources/TestJMSModule/JMSResource/TestJMSModule'',
     Invoke Cmo ''createConnectionFactory'' [Str ''TestConnectionFactory''],
     Cd ''/JMSSystemResources/TestJMSModule/JMSResource/TestJMSModule/ConnectionFactories/TestConnectionFactory'',
     Invoke Cmo ''setJNDIName'' [Str ''jms/TestConnectionFactory''],
     Invoke Cmo ''setSubDeploymentName'' [Str ''TestJMSSubdeployment''],
     Cd ''/JMSSystemResources/TestJMSModule/JMSResource/TestJMSModule'',
     Invoke Cmo ''createQueue'' [Str ''TestQueue''],
     Cd ''/JMSSystemResources/TestJMSModule/JMSResource/TestJMSModule/Queues/TestQueue'',
     Invoke Cmo ''setJNDIName'' [Str ''jms/TestQueue''],
     Invoke Cmo ''setSubDeploymentName'' [Str ''TestJMSSubdeployment''],
     Cd ''/JMSSystemResources/TestJMSModule/JMSResource/TestJMSModule'',
     Invoke Cmo ''createDistributedQueue'' [Str ''udd_queue''],
     Cd ''/JMSSystemResources/TestJMSModule/JMSResource/TestJMSModule/DistributedQueues/udd_queue'',
     Invoke Cmo ''setJNDIName'' [Str ''jms/udd_queue''],
     Cd ''/JMSSystemResources/TestJMSModule/JMSResource/TestJMSModule'',
     Invoke Cmo ''createQueue'' [Str ''ms1@udd_queue''],
     Cd ''/JMSSystemResources/TestJMSModule/JMSResource/TestJMSModule/Queues/ms1@udd_queue'',
     Invoke Cmo ''setJNDIName'' [Str ''jms/ms1@udd_queue''],
     Invoke Cmo ''setSubDeploymentName'' [Str ''TestJMSSubdeployment''],
     Cd ''/JMSSystemResources/TestJMSModule/JMSResource/TestJMSModule'',
     Invoke Cmo ''createQueue'' [Str ''ms2@udd_queue''],
     Cd ''/JMSSystemResources/TestJMSModule/JMSResource/TestJMSModule/Queues/ms2@udd_queue'',
     Invoke Cmo ''setJNDIName'' [Str ''jms/ms2@udd_queue''],
     Invoke Cmo ''setSubDeploymentName'' [Str ''TestJMSSubdeployment''],
     Cd ''/JMSSystemResources/TestJMSModule/JMSResource/TestJMSModule/DistributedQueues/udd_queue'',
     Invoke Cmo ''setLoadBalancingPolicy'' [Str ''Round-Robin''],
     Invoke Cmo ''createDistributedQueueMember'' [Str ''ms1@udd_queue''],
     Cd ''/JMSSystemResources/TestJMSModule/JMSResource/TestJMSModule/DistributedQueues/udd_queue'',
     Invoke Cmo ''setLoadBalancingPolicy'' [Str ''Round-Robin''],
     Invoke Cmo ''createDistributedQueueMember'' [Str ''ms2@udd_queue''],
     Save, Activate ''true'', Disconnect]"

definition new_calls :: "'a wlst \<Rightarrow> world \<Rightarrow> call list" where
  "new_calls m w = drop (length (issued w)) (issued (snd (m w)))"

fun is_create :: "call \<Rightarrow> bool" where
  "is_create (Create name kind) = True"
| "is_create (Invoke obj meth args) = (take 6 meth = ''create'')"
| "is_create _ = False"

fun is_connect :: "call \<Rightarrow> bool" where
  "is_connect (Connect user pass url) = True"
| "is_connect _ = False"

fun calls_at :: "string \<Rightarrow> string \<Rightarrow> call list \<Rightarrow> call list" where
  "calls_at path cur [] = []"
| "calls_at path cur (Cd p # cs) = calls_at path p cs"
| "calls_at path cur (Invoke Cmo meth args # cs) =
     (if cur = path then Invoke Cmo meth args # calls_at path cur cs else calls_at path cur cs)"
| "calls_at path cur (c # cs) = calls_at path cur cs"


section \<open>Exceptions cut a run short and change nothing else\<close>

lemma until_raise_append:
  "until_raise r h (xs @ ys) =
     (case fst (until_raise r h xs) of
        Some c \<Rightarrow> until_raise r h xs
      | None \<Rightarrow> (fst (until_raise r (h @ xs) ys), xs @ snd (until_raise r (h @ xs) ys)))"
  by (induction xs arbitrary: h) (auto split: option.splits)

lemma until_raise_None_snd: "fst (until_raise r h xs) = None \<Longrightarrow> snd (until_raise r h xs) = xs"
  by (induction xs arbitrary: h) (auto split: if_splits)

lemma quiet_simps [simp]:
  "raises (quiet r) h c = False" "ls_reply (quiet r) = ls_reply r"
  "get_reply (quiet r) = get_reply r" "getMBean_reply (quiet r) = getMBean_reply r"
  "create_reply (quiet r) = create_reply r" "quiet (quiet r) = quiet r"
  by (simp_all add: quiet_def)

lemma faithful_return: "faithful (return_wlst x)"
  unfolding faithful_def return_wlst_def by (intro allI exI[of _ "[]"]) simp

lemma faithful_lift: "faithful (lift x)"
  unfolding faithful_def lift_def by (intro allI exI[of _ "[]"]) simp

lemma faithful_print: "faithful (print s)"
  unfolding faithful_def print_def by (intro allI exI[of _ "[]"]) simp

lemma faithful_issue: "faithful (issue c x)"
  unfolding faithful_def issue_def by (intro allI exI[of _ "[c]"]) simp

lemma faithful_reply:
  assumes "\<And>w. f (w\<lparr>server := quiet (server w)\<rparr>) = f w"
  shows "faithful (\<lambda>w. issue c (f w) w)"
  unfolding faithful_def issue_def using assms by (intro allI exI[of _ "[c]"]) simp

lemma bind_wlst_alt:
  "bind_wlst m f w = (case fst (m w) of Inl e \<Rightarrow> (Inl e, snd (m w)) | Inr x \<Rightarrow> f x (snd (m w)))"
  by (cases "m w") (simp add: bind_wlst_def split: sum.splits)

lemma faithful_bind:
  assumes m: "faithful m" and f: "\<And>x. faithful (f x)"
  shows "faithful (bind_wlst m f)"
  unfolding faithful_def
proof
  fix w :: world
  define r where "r = server w"
  define wq where "wq = w\<lparr>server := quiet r\<rparr>"
  from m obtain new1 where
    s1: "server (snd (m wq)) = quiet r" and
    i1: "issued (snd (m wq)) = issued w @ new1" and
    c1: "(case fst (until_raise r (issued w) new1) of
            None \<Rightarrow> m w = (fst (m wq), (snd (m wq))\<lparr>server := r\<rparr>)
          | Some c \<Rightarrow> fst (m w) = Inl (RemoteError c) \<and> server (snd (m w)) = r \<and>
                      issued (snd (m w)) = issued w @ snd (until_raise r (issued w) new1))"
    unfolding faithful_def r_def wq_def by blast
  show "\<exists>new.
      server (snd (bind_wlst m f (w\<lparr>server := quiet (server w)\<rparr>))) = quiet (server w) \<and>
      issued (snd (bind_wlst m f (w\<lparr>server := quiet (server w)\<rparr>))) = issued w @ new \<and>
      (case fst (until_raise (server w) (issued w) new) of
         None \<Rightarrow> bind_wlst m f w = (fst (bind_wlst m f (w\<lparr>server := quiet (server w)\<rparr>)),
                         (snd (bind_wlst m f (w\<lparr>server := quiet (server w)\<rparr>)))\<lparr>server := server w\<rparr>)
       | Some c \<Rightarrow> fst (bind_wlst m f w) = Inl (RemoteError c) \<and> server (snd (bind_wlst m f w)) = server w \<and>
                   issued (snd (bind_wlst m f w)) = issued w @ snd (until_raise (server w) (issued w) new))"
    unfolding r_def [symmetric] wq_def [symmetric]
  proof (cases "fst (m wq)")
    case (Inl e)
    then have b: "bind_wlst m f wq = (Inl e, snd (m wq))"
      by (simp add: bind_wlst_alt)
    show "\<exists>new. server (snd (bind_wlst m f wq)) = quiet r \<and>
      issued (snd (bind_wlst m f wq)) = issued w @ new \<and>
      (case fst (until_raise r (issued w) new) of
         None \<Rightarrow> bind_wlst m f w = (fst (bind_wlst m f wq), (snd (bind_wlst m f wq))\<lparr>server := r\<rparr>)
       | Some c \<Rightarrow> fst (bind_wlst m f w) = Inl (RemoteError c) \<and> server (snd (bind_wlst m f w)) = r \<and>
                   issued (snd (bind_wlst m f w)) = issued w @ snd (until_raise r (issued w) new))"
    proof (intro exI[of _ new1] conjI)
      show "server (snd (bind_wlst m f wq)) = quiet r" using b s1 by simp
      show "issued (snd (bind_wlst m f wq)) = issued w @ new1" using b i1 by simp
      show "case fst (until_raise r (issued w) new1) of
         None \<Rightarrow> bind_wlst m f w = (fst (bind_wlst m f wq), (snd (bind_wlst m f wq))\<lparr>server := r\<rparr>)
       | Some c \<Rightarrow> fst (bind_wlst m f w) = Inl (RemoteError c) \<and> server (snd (bind_wlst m f w)) = r \<and>
                   issued (snd (bind_wlst m f w)) = issued w @ snd (until_raise r (issued w) new1)"
        using c1 b Inl by (auto simp: bind_wlst_alt split: option.splits)
    qed
  next
    case (Inr x)
    define w1 where "w1 = snd (m wq)"
    have mq: "m wq = (Inr x, w1)" using Inr by (simp add: w1_def prod_eq_iff)
    have b: "bind_wlst m f wq = f x w1" using mq by (simp add: bind_wlst_alt)
    from f [of x] obtain new2 where
      s2: "server (snd (f x w1)) = quiet r" and
      i2: "issued (snd (f x w1)) = issued w1 @ new2" and
      c2: "(case fst (until_raise r (issued w1) new2) of
            None \<Rightarrow> f x (w1\<lparr>server := r\<rparr>) = (fst (f x w1), (snd (f x w1))\<lparr>server := r\<rparr>)
          | Some c \<Rightarrow> fst (f x (w1\<lparr>server := r\<rparr>)) = Inl (RemoteError c) \<and>
                      server (snd (f x (w1\<lparr>server := r\<rparr>))) = r \<and>
                      issued (snd (f x (w1\<lparr>server := r\<rparr>))) = issued w1 @ snd (until_raise r (issued w1) new2))"
    proof -
      have q: "(w1\<lparr>server := r\<rparr>)\<lparr>server := quiet r\<rparr> = w1" using s1 by (simp add: w1_def)
      from f [of x] have "\<exists>new.
        server (snd (f x ((w1\<lparr>server := r\<rparr>)\<lparr>server := quiet (server (w1\<lparr>server := r\<rparr>))\<rparr>))) = quiet (server (w1\<lparr>server := r\<rparr>)) \<and>
        issued (snd (f x ((w1\<lparr>server := r\<rparr>)\<lparr>server := quiet (server (w1\<lparr>server := r\<rparr>))\<rparr>))) = issued (w1\<lparr>server := r\<rparr>) @ new \<and>
        (case fst (until_raise (server (w1\<lparr>server := r\<rparr>)) (issued (w1\<lparr>server := r\<rparr>)) new) of
           None \<Rightarrow> f x (w1\<lparr>server := r\<rparr>) = (fst (f x ((w1\<lparr>server := r\<rparr>)\<lparr>server := quiet (server (w1\<lparr>server := r\<rparr>))\<rparr>)),
                         (snd (f x ((w1\<lparr>server := r\<rparr>)\<lparr>server := quiet (server (w1\<lparr>server := r\<rparr>))\<rparr>)))\<lparr>server := server (w1\<lparr>server := r\<rparr>)\<rparr>)
         | Some c \<Rightarrow> fst (f x (w1\<lparr>server := r\<rparr>)) = Inl (RemoteError c) \<and> server (snd (f x (w1\<lparr>server := r\<rparr>))) = server (w1\<lparr>server := r\<rparr>) \<and>
                   issued (snd (f x (w1\<lparr>server := r\<rparr>))) = issued (w1\<lparr>server := r\<rparr>) @ snd (until_raise (server (w1\<lparr>server := r\<rparr>)) (issued (w1\<lparr>server := r\<rparr>)) new))"
        unfolding faithful_def by (rule spec)
      then obtain new where
        "server (snd (f x w1)) = quiet r \<and> issued (snd (f x w1)) = issued w1 @ new \<and>
         (case fst (until_raise r (issued w1) new) of
            None \<Rightarrow> f x (w1\<lparr>server := r\<rparr>) = (fst (f x w1), (snd (f x w1))\<lparr>server := r\<rparr>)
          | Some c \<Rightarrow> fst (f x (w1\<lparr>server := r\<rparr>)) = Inl (RemoteError c) \<and>
                      server (snd (f x (w1\<lparr>server := r\<rparr>))) = r \<and>
                      issued (snd (f x (w1\<lparr>server := r\<rparr>))) = issued w1 @ snd (until_raise r (issued w1) new))"
        using q by (auto cong: option.case_cong)
      then show ?thesis using that by blast
    qed
    show "\<exists>new. server (snd (bind_wlst m f wq)) = quiet r \<and>
      issued (snd (bind_wlst m f wq)) = issued w @ new \<and>
      (case fst (until_raise r (issued w) new) of
         None \<Rightarrow> bind_wlst m f w = (fst (bind_wlst m f wq), (snd (bind_wlst m f wq))\<lparr>server := r\<rparr>)
       | Some c \<Rightarrow> fst (bind_wlst m f w) = Inl (RemoteError c) \<and> server (snd (bind_wlst m f w)) = r \<and>
                   issued (snd (bind_wlst m f w)) = issued w @ snd (until_raise r (issued w) new))"
    proof (intro exI[of _ "new1 @ new2"] conjI)
      show "server (snd (bind_wlst m f wq)) = quiet r" using b s2 by simp
      show "issued (snd (bind_wlst m f wq)) = issued w @ new1 @ new2"
        using b i2 i1 by (simp add: w1_def)
      show "case fst (until_raise r (issued w) (new1 @ new2)) of
         None \<Rightarrow> bind_wlst m f w = (fst (bind_wlst m f wq), (snd (bind_wlst m f wq))\<lparr>server := r\<rparr>)
       | Some c \<Rightarrow> fst (bind_wlst m f w) = Inl (RemoteError c) \<and> server (snd (bind_wlst m f w)) = r \<and>
                   issued (snd (bind_wlst m f w)) = issued w @ snd (until_raise r (issued w) (new1 @ new2))"
      proof (cases "fst (until_raise r (issued w) new1)")
        case (Some c)
        then show ?thesis using c1
          by (auto simp: until_raise_append bind_wlst_alt)
      next
        case None
        then have "m w = (fst (m wq), (snd (m wq))\<lparr>server := r\<rparr>)" using c1 by simp
        then have mw: "m w = (Inr x, w1\<lparr>server := r\<rparr>)" using mq by simp
        have bw: "bind_wlst m f w = f x (w1\<lparr>server := r\<rparr>)" using mw by (simp add: bind_wlst_alt)
        have iw1: "issued w1 = issued w @ new1" using i1 by (simp add: w1_def)
        show ?thesis using None c2
          by (auto simp: until_raise_append bw b iw1 split: option.splits)
      qed
    qed
  qed
qed

lemma faithful_seq_all: "(\<And>m. m \<in> set ms \<Longrightarrow> faithful m) \<Longrightarrow> faithful (seq_all ms)"
  by (induction ms) (auto intro: faithful_return faithful_bind)

lemma faithful_py_if: "faithful m \<Longrightarrow> faithful (py_if b m)"
  by (simp add: py_if_def faithful_return)

lemma start_quiet: "(start r)\<lparr>server := quiet (server (start r))\<rparr> = start (quiet r)"
  by (simp add: start_def)

lemma faithful_start:
  assumes "faithful m"
  shows "case fst (until_raise r [] (trace m (quiet r))) of
           None \<Rightarrow> m (start r) = (outcome m (quiet r), (snd (m (start (quiet r))))\<lparr>server := r\<rparr>)
         | Some c \<Rightarrow> outcome m r = Inl (RemoteError c) \<and>
                     trace m r = snd (until_raise r [] (trace m (quiet r)))"
proof -
  from assms obtain new where
    i: "issued (snd (m ((start r)\<lparr>server := quiet (server (start r))\<rparr>))) = issued (start r) @ new" and
    c: "(case fst (until_raise (server (start r)) (issued (start r)) new) of
         None \<Rightarrow> m (start r) = (fst (m ((start r)\<lparr>server := quiet (server (start r))\<rparr>)),
                         (snd (m ((start r)\<lparr>server := quiet (server (start r))\<rparr>)))\<lparr>server := server (start r)\<rparr>)
       | Some c \<Rightarrow> fst (m (start r)) = Inl (RemoteError c) \<and> server (snd (m (start r))) = server (start r) \<and>
                   issued (snd (m (start r))) = issued (start r) @ snd (until_raise (server (start r)) (issued (start r)) new))"
    unfolding faithful_def by blast
  have n: "new = trace m (quiet r)" using i unfolding start_quiet by (simp add: trace_def start_def)
  have s: "server (start r) = r" "issued (start r) = []" by (simp_all add: start_def)
  have sq: "(start r)\<lparr>server := quiet r\<rparr> = start (quiet r)" by (simp add: start_def)
  show ?thesis using c unfolding s n
    by (auto simp: sq trace_def outcome_def split: option.splits)
qed

lemma faithful_trace:
  "faithful m \<Longrightarrow> trace m r = snd (until_raise r [] (trace m (quiet r)))"
  using faithful_start [of m r]
  by (cases "fst (until_raise r [] (trace m (quiet r)))") (simp_all add: trace_def until_raise_None_snd)

lemma faithful_outcome:
  "faithful m \<Longrightarrow> outcome m r =
     (case fst (until_raise r [] (trace m (quiet r))) of None \<Rightarrow> outcome m (quiet r) | Some c \<Rightarrow> Inl (RemoteError c))"
  using faithful_start [of m r]
  by (cases "fst (until_raise r [] (trace m (quiet r)))") (simp_all add: outcome_def)

lemma faithful_seq_Nil: "faithful (seq_all [])"
  by (simp add: faithful_return)

lemma faithful_seq_Cons: "faithful m \<Longrightarrow> faithful (seq_all ms) \<Longrightarrow> faithful (seq_all (m # ms))"
  by (simp add: faithful_bind)

lemma faithful_prims:
  "faithful (system_setProperty k v)" "faithful (connect a b c)" "faithful (get attr)"
  "faithful edit" "faithful startEdit" "faithful (cd path)" "faithful ls"
  "faithful (getMBean path)" "faithful (create name kind)" "faithful (set_attr name x)"
  "faithful (setOption name v)" "faithful (readTemplate path)" "faithful (writeDomain path)"
  "faithful closeTemplate" "faithful exit_wlst" "faithful save" "faithful (activate block)"
  "faithful disconnect" "faithful (invoke obj meth args)"
  unfolding system_setProperty_def connect_def get_def edit_def startEdit_def cd_def ls_def
    getMBean_def create_def set_attr_def setOption_def readTemplate_def writeDomain_def
    closeTemplate_def exit_wlst_def save_def activate_def disconnect_def invoke_def
  by (simp_all add: faithful_issue faithful_reply)

lemmas faithful_intros =
  faithful_prims faithful_print faithful_return faithful_lift faithful_bind faithful_py_if
  faithful_seq_Nil faithful_seq_Cons

lemma faithful_create_wls_domain: "faithful (create_wls_domain environ username password)"
  unfolding create_wls_domain_def by (intro faithful_intros)

lemma faithful_createJMSServer: "faithful (createJMSServer a n)"
  unfolding createJMSServer_def by (intro faithful_intros)

lemma faithful_createJMSModule: "faithful (createJMSModule a n s)"
  unfolding createJMSModule_def by (intro faithful_intros)

lemma faithful_createJMSQueue: "faithful (createJMSQueue a n)"
  unfolding createJMSQueue_def by (intro faithful_intros)

lemma faithful_createDistributedJMSQueue: "faithful (createDistributedJMSQueue a n)"
  unfolding createDistributedJMSQueue_def by (intro faithful_intros)

lemma faithful_createJMSFactory: "faithful (createJMSFactory a n)"
  unfolding createJMSFactory_def by (intro faithful_intros)

lemma faithful_addMemberQueue: "faithful (addMemberQueue a n)"
  unfolding addMemberQueue_def by (intro faithful_intros)

lemma faithful_setupTestJMSQueue: "faithful (setupTestJMSQueue environ)"
  unfolding setupTestJMSQueue_def
  by (intro faithful_intros faithful_createJMSServer faithful_createJMSModule
      faithful_createJMSQueue faithful_createDistributedJMSQueue faithful_createJMSFactory
      faithful_addMemberQueue)


section \<open>Evaluating a run on a server that never raises\<close>

lemma issue_quiet: "issue c x \<lparr>server = quiet r, issued = h, stdout = out\<rparr> =
   (Inr x, \<lparr>server = quiet r, issued = h @ [c], stdout = out\<rparr>)"
  by (simp add: issue_def)

lemmas prim_defs = system_setProperty_def connect_def get_def edit_def startEdit_def cd_def ls_def
    getMBean_def create_def set_attr_def setOption_def readTemplate_def writeDomain_def
    closeTemplate_def exit_wlst_def save_def activate_def disconnect_def invoke_def

lemmas run_simps = prim_defs issue_quiet bind_wlst_def return_wlst_def lift_def py_if_def print_def

lemma domain_quiet:
  assumes "admin_listen_port environ = Inr lp" "administration_port environ = Inr ap"
  shows "trace (create_wls_domain environ u p) (quiet r) =
    [ReadTemplate ''/u01/oracle/wlserver/common/templates/wls/wls.jar'',
     SetAttr ''Name'' (Str (domain_name environ)),
     SetOption ''DomainName'' (domain_name environ)] @
    (if administration_port_enabled environ \<noteq> ''false''
     then [SetAttr ''AdministrationPort'' (Num ap), SetAttr ''AdministrationPortEnabled'' (Str ''false'')]
     else []) @
    [Cd ''/Servers/AdminServer'',
     SetAttr ''Name'' (Str (admin_name environ)),
     SetAttr ''ListenAddress'' (Str ''''),
     SetAttr ''ListenPort'' (Num lp)] @
    (if administration_port_enabled environ \<noteq> ''false''
     then [Create (admin_name environ) ''SSL'', Cd (''SSL/'' @ admin_name environ),
           SetAttr ''Enabled'' (Str ''True'')]
     else []) @
    [Cd (''/Security/'' @ domain_name environ @ ''/User/weblogic''),
     Invoke Cmo ''setName'' [Str u],
     Invoke Cmo ''setPassword'' [Str p],
     SetOption ''OverwriteDomain'' ''true'',
     SetOption ''ServerStartMode'' (production_mode environ),
     WriteDomain (domain_path environ),
     CloseTemplate,
     Exit]"
  and "outcome (create_wls_domain environ u p) (quiet r) = Inr ()"
  using assms by (simp_all add: trace_def outcome_def start_def create_wls_domain_def run_simps)

lemma until_raise_take:
  "snd (until_raise r h cs) = take (length (snd (until_raise r h cs))) cs"
  by (induction cs arbitrary: h) auto

lemma until_raise_subset: "set (snd (until_raise r h cs)) \<subseteq> set cs"
  by (induction cs arbitrary: h) auto

lemma until_raise_None_iff: "fst (until_raise r h cs) = None \<longleftrightarrow> calls_ok r h cs"
  by (induction cs arbitrary: h) auto

lemma until_raise_Some:
  "fst (until_raise r h cs) = Some c \<Longrightarrow>
   \<exists>t. snd (until_raise r h cs) = t @ [c] \<and> calls_ok r h t \<and> raises r (h @ t) c"
proof (induction cs arbitrary: h)
  case Nil
  then show ?case by simp
next
  case (Cons a cs)
  show ?case
  proof (cases "raises r h a")
    case True
    with Cons.prems show ?thesis by (intro exI[of _ "[]"]) simp
  next
    case False
    with Cons.prems have "fst (until_raise r (h @ [a]) cs) = Some c" by simp
    from Cons.IH [OF this] obtain t where
      "snd (until_raise r (h @ [a]) cs) = t @ [c]" "calls_ok r (h @ [a]) t" "raises r ((h @ [a]) @ t) c"
      by blast
    with False show ?thesis by (intro exI[of _ "a # t"]) simp
  qed
qed

lemma domain_quiet_Inl1:
  "admin_listen_port environ = Inl e \<Longrightarrow>
   trace (create_wls_domain environ u p) (quiet r) = [] \<and>
   outcome (create_wls_domain environ u p) (quiet r) = Inl e"
  by (simp add: trace_def outcome_def start_def create_wls_domain_def run_simps)

lemma domain_quiet_Inl2:
  "admin_listen_port environ = Inr lp \<Longrightarrow> administration_port environ = Inl e \<Longrightarrow>
   trace (create_wls_domain environ u p) (quiet r) = [] \<and>
   outcome (create_wls_domain environ u p) (quiet r) = Inl e"
  by (simp add: trace_def outcome_def start_def create_wls_domain_def run_simps)

lemma domain_Inl1:
  "admin_listen_port environ = Inl e \<Longrightarrow>
   trace (create_wls_domain environ u p) r = [] \<and>
   outcome (create_wls_domain environ u p) r = Inl e"
  by (simp add: trace_def outcome_def start_def create_wls_domain_def bind_wlst_def lift_def)

lemma domain_Inl2:
  "admin_listen_port environ = Inr lp \<Longrightarrow> administration_port environ = Inl e \<Longrightarrow>
   trace (create_wls_domain environ u p) r = [] \<and>
   outcome (create_wls_domain environ u p) r = Inl e"
  by (simp add: trace_def outcome_def start_def create_wls_domain_def bind_wlst_def lift_def)

lemma py_int_7001: "py_int ''7001'' = Inr 7001"
  by (simp add: py_int_def strip_def is_space_def is_digit_def digits_value_def)

lemma py_int_9002: "py_int ''9002'' = Inr 9002"
  by (simp add: py_int_def strip_def is_space_def is_digit_def digits_value_def)


section \<open>The domain script\<close>

lemma other_settings:
  "domain_name (environ(''ADMINISTRATION_PORT_ENABLED'' := x)) = domain_name environ"
  "admin_name (environ(''ADMINISTRATION_PORT_ENABLED'' := x)) = admin_name environ"
  "admin_listen_port (environ(''ADMINISTRATION_PORT_ENABLED'' := x)) = admin_listen_port environ"
  "domain_path (environ(''ADMINISTRATION_PORT_ENABLED'' := x)) = domain_path environ"
  "production_mode (environ(''ADMINISTRATION_PORT_ENABLED'' := x)) = production_mode environ"
  "administration_port (environ(''ADMINISTRATION_PORT_ENABLED'' := x)) = administration_port environ"
  by (simp_all add: domain_name_def admin_name_def admin_listen_port_def domain_path_def
      production_mode_def administration_port_def environ_get_def)

lemma flag_setting:
  "administration_port_enabled (environ(''ADMINISTRATION_PORT_ENABLED'' \<mapsto> v)) = v"
  "administration_port_enabled (environ(''ADMINISTRATION_PORT_ENABLED'' := None)) = ''true''"
  "environ ''ADMINISTRATION_PORT_ENABLED'' = Some v \<Longrightarrow> administration_port_enabled environ = v"
  by (simp_all add: administration_port_enabled_def environ_get_def)

lemma domain_quiet_same_flag:
  assumes "(administration_port_enabled e1 = ''false'') = (administration_port_enabled e2 = ''false'')"
    and "domain_name e1 = domain_name e2" "admin_name e1 = admin_name e2"
    and "admin_listen_port e1 = admin_listen_port e2" "domain_path e1 = domain_path e2"
    and "production_mode e1 = production_mode e2" "administration_port e1 = administration_port e2"
  shows "trace (create_wls_domain e1 u p) (quiet r) = trace (create_wls_domain e2 u p) (quiet r)
       \<and> outcome (create_wls_domain e1 u p) (quiet r) = outcome (create_wls_domain e2 u p) (quiet r)"
proof (cases "admin_listen_port e2")
  case (Inl e)
  then show ?thesis using assms domain_quiet_Inl1 [of e1 e u p r] domain_quiet_Inl1 [of e2 e u p r]
    by simp
next
  case lp: (Inr lp)
  show ?thesis
  proof (cases "administration_port e2")
    case (Inl e)
    then show ?thesis
      using assms lp domain_quiet_Inl2 [of e1 lp e u p r] domain_quiet_Inl2 [of e2 lp e u p r]
      by simp
  next
    case (Inr ap)
    then show ?thesis
      using assms lp domain_quiet [of e1 lp ap u p r] domain_quiet [of e2 lp ap u p r]
      by simp
  qed
qed

lemma domain_same_flag:
  assumes "(administration_port_enabled e1 = ''false'') = (administration_port_enabled e2 = ''false'')"
    and "domain_name e1 = domain_name e2" "admin_name e1 = admin_name e2"
    and "admin_listen_port e1 = admin_listen_port e2" "domain_path e1 = domain_path e2"
    and "production_mode e1 = production_mode e2" "administration_port e1 = administration_port e2"
  shows "trace (create_wls_domain e1 u p) r = trace (create_wls_domain e2 u p) r
       \<and> outcome (create_wls_domain e1 u p) r = outcome (create_wls_domain e2 u p) r"
proof -
  note q = domain_quiet_same_flag [OF assms, of u p r]
  have "trace (create_wls_domain e1 u p) r = snd (until_raise r [] (trace (create_wls_domain e1 u p) (quiet r)))"
    by (rule faithful_trace [OF faithful_create_wls_domain])
  also have "\<dots> = snd (until_raise r [] (trace (create_wls_domain e2 u p) (quiet r)))"
    using q by simp
  also have "\<dots> = trace (create_wls_domain e2 u p) r"
    by (rule faithful_trace [OF faithful_create_wls_domain, symmetric])
  finally have t: "trace (create_wls_domain e1 u p) r = trace (create_wls_domain e2 u p) r" .
  have "outcome (create_wls_domain e1 u p) r =
      (case fst (until_raise r [] (trace (create_wls_domain e1 u p) (quiet r))) of
         None \<Rightarrow> outcome (create_wls_domain e1 u p) (quiet r) | Some c \<Rightarrow> Inl (RemoteError c))"
    by (rule faithful_outcome [OF faithful_create_wls_domain])
  also have "\<dots> =
      (case fst (until_raise r [] (trace (create_wls_domain e2 u p) (quiet r))) of
         None \<Rightarrow> outcome (create_wls_domain e2 u p) (quiet r) | Some c \<Rightarrow> Inl (RemoteError c))"
    using q by (simp cong: option.case_cong)
  also have "\<dots> = outcome (create_wls_domain e2 u p) r"
    by (rule faithful_outcome [OF faithful_create_wls_domain, symmetric])
  finally show ?thesis using t by simp
qed

lemma domain_trace_subset:
  "set (trace (create_wls_domain environ u p) r) \<subseteq> set (trace (create_wls_domain environ u p) (quiet r))"
  by (subst faithful_trace [OF faithful_create_wls_domain]) (rule until_raise_subset)

lemma domain_quiet_trace_cases:
  obtains (no_calls) "trace (create_wls_domain environ u p) (quiet r) = []"
  | (calls) lp ap where "admin_listen_port environ = Inr lp" "administration_port environ = Inr ap"
proof (cases "admin_listen_port environ")
  case (Inl e)
  then show ?thesis using domain_quiet_Inl1 [of environ e u p r] no_calls by simp
next
  case lp: (Inr lp)
  show ?thesis
  proof (cases "administration_port environ")
    case (Inl e)
    then show ?thesis using lp domain_quiet_Inl2 [of environ lp e u p r] no_calls by simp
  next
    case (Inr ap)
    then show ?thesis using lp calls by simp
  qed
qed

text \<open>
  Claim C1. When ADMINISTRATION_PORT_ENABLED is the string "false", no run of the domain
  script, whatever the server does, issues a set of 'AdministrationPort', a create of an
  'SSL' bean or a set of 'Enabled'. On a server that never raises, the calls issued are
  those of the run with any other value of the variable, in the same order, with the
  calls of the two guarded blocks removed and nothing else changed.
\<close>

theorem disabled_port_skips_port_and_ssl:
  assumes "environ ''ADMINISTRATION_PORT_ENABLED'' = Some ''false''"
  shows "(\<forall>v. SetAttr ''AdministrationPort'' v \<notin> set (trace (create_wls_domain environ u p) r)) \<and>
         (\<forall>n. Create n ''SSL'' \<notin> set (trace (create_wls_domain environ u p) r)) \<and>
         (\<forall>v. SetAttr ''Enabled'' v \<notin> set (trace (create_wls_domain environ u p) r)) \<and>
         (\<forall>x. trace (create_wls_domain environ u p) (quiet r) =
               filter (\<lambda>c. \<not> guarded_step c)
                 (trace (create_wls_domain (environ(''ADMINISTRATION_PORT_ENABLED'' := x)) u p) (quiet r)))"
proof -
  have off: "administration_port_enabled environ = ''false''"
    using assms by (simp add: flag_setting)
  have absent: "\<forall>c \<in> set (trace (create_wls_domain environ u p) (quiet r)). \<not> guarded_step c"
  proof (cases rule: domain_quiet_trace_cases [of environ u p r])
    case no_calls
    then show ?thesis by simp
  next
    case (calls lp ap)
    then show ?thesis using off by (simp add: domain_quiet)
  qed
  then have "\<forall>c \<in> set (trace (create_wls_domain environ u p) r). \<not> guarded_step c"
    using domain_trace_subset [of environ u p r] by blast
  then have part1:
    "(\<forall>v. SetAttr ''AdministrationPort'' v \<notin> set (trace (create_wls_domain environ u p) r)) \<and>
     (\<forall>n. Create n ''SSL'' \<notin> set (trace (create_wls_domain environ u p) r)) \<and>
     (\<forall>v. SetAttr ''Enabled'' v \<notin> set (trace (create_wls_domain environ u p) r))"
    by fastforce
  have part2: "trace (create_wls_domain environ u p) (quiet r) =
      filter (\<lambda>c. \<not> guarded_step c)
        (trace (create_wls_domain (environ(''ADMINISTRATION_PORT_ENABLED'' := x)) u p) (quiet r))" for x
  proof (cases rule: domain_quiet_trace_cases [of environ u p r])
    case no_calls
    have "trace (create_wls_domain (environ(''ADMINISTRATION_PORT_ENABLED'' := x)) u p) (quiet r) = []"
    proof (cases rule: domain_quiet_trace_cases [of "environ(''ADMINISTRATION_PORT_ENABLED'' := x)" u p r])
      case no_calls
      then show ?thesis .
    next
      case (calls lp ap)
      then have "admin_listen_port environ = Inr lp" "administration_port environ = Inr ap"
        by (simp_all add: other_settings)
      from domain_quiet(1) [OF this, of u p r] no_calls show ?thesis by simp
    qed
    with no_calls show ?thesis by simp
  next
    case (calls lp ap)
    then have "admin_listen_port (environ(''ADMINISTRATION_PORT_ENABLED'' := x)) = Inr lp"
      "administration_port (environ(''ADMINISTRATION_PORT_ENABLED'' := x)) = Inr ap"
      by (simp_all add: other_settings)
    from domain_quiet(1) [OF this, of u p r] domain_quiet(1) [OF calls, of u p r] off
    show ?thesis by (simp add: other_settings)
  qed
  from part1 part2 show ?thesis by blast
qed

lemma completed_run:
  assumes "faithful m" "outcome m r = Inr x"
  shows "trace m r = trace m (quiet r) \<and> outcome m (quiet r) = Inr x \<and> calls_ok r [] (trace m r)"
proof -
  from assms faithful_outcome [OF assms(1), of r]
  have n: "fst (until_raise r [] (trace m (quiet r))) = None" and o: "outcome m (quiet r) = Inr x"
    by (auto split: option.splits)
  from n have "snd (until_raise r [] (trace m (quiet r))) = trace m (quiet r)"
    by (rule until_raise_None_snd)
  then have t: "trace m r = trace m (quiet r)" using faithful_trace [OF assms(1), of r] by simp
  from n have "calls_ok r [] (trace m (quiet r))" by (simp add: until_raise_None_iff)
  with t o show ?thesis by simp
qed

lemma aborted_run:
  assumes "faithful m" "outcome m r = Inl (RemoteError c)"
    and "outcome m (quiet r) \<noteq> Inl (RemoteError c)"
  shows "\<exists>t. trace m r = t @ [c] \<and> calls_ok r [] t \<and> raises r t c \<and>
             t @ [c] = take (Suc (length t)) (trace m (quiet r))"
proof -
  from assms faithful_outcome [OF assms(1), of r]
  have "fst (until_raise r [] (trace m (quiet r))) = Some c"
    by (auto split: option.splits)
  from until_raise_Some [OF this] obtain t where
    t: "snd (until_raise r [] (trace m (quiet r))) = t @ [c]" "calls_ok r [] t" "raises r ([] @ t) c"
    by blast
  have "snd (until_raise r [] (trace m (quiet r))) =
      take (length (snd (until_raise r [] (trace m (quiet r))))) (trace m (quiet r))"
    by (rule until_raise_take)
  with t have tk: "t @ [c] = take (Suc (length t)) (trace m (quiet r))" by simp
  have tr: "trace m r = t @ [c]" using t(1) faithful_trace [OF assms(1), of r] by simp
  have ra: "raises r t c" using t(3) by simp
  from tr t(2) ra tk show ?thesis by blast
qed

lemma domain_completed:
  assumes "outcome (create_wls_domain environ u p) r = Inr ()"
  obtains lp ap where "admin_listen_port environ = Inr lp" "administration_port environ = Inr ap"
    "trace (create_wls_domain environ u p) r = trace (create_wls_domain environ u p) (quiet r)"
proof -
  from completed_run [OF faithful_create_wls_domain assms]
  have t: "trace (create_wls_domain environ u p) r = trace (create_wls_domain environ u p) (quiet r)"
    and o: "outcome (create_wls_domain environ u p) (quiet r) = Inr ()" by simp_all
  show ?thesis
  proof (cases "admin_listen_port environ")
    case (Inl e)
    with o domain_quiet_Inl1 [of environ e u p r] show ?thesis by simp
  next
    case lp: (Inr lp)
    show ?thesis
    proof (cases "administration_port environ")
      case (Inl e)
      with o lp domain_quiet_Inl2 [of environ lp e u p r] show ?thesis by simp
    next
      case (Inr ap)
      with lp t that show ?thesis by blast
    qed
  qed
qed

lemma take_of_prefix3: "take (min 3 k) (a # b # c # rest) = take k [a, b, c]"
  by (cases k; simp add: take_Cons' min_def)

text \<open>
  Claim C7. With \<open>dn\<close> the value of DOMAIN_NAME, or base_domain when it is unset, every
  run begins with reading the template, setting the domain's Name to \<open>dn\<close> and setting the
  option DomainName to \<open>dn\<close> (as far as it gets); no other value is ever given to DomainName
  and no other path than /u01/oracle/user_projects/domains/ followed by \<open>dn\<close> to writeDomain;
  and a run that completes has issued all three.
\<close>

theorem domain_name_drives_name_option_and_path:
  assumes "dn = (case environ ''DOMAIN_NAME'' of None \<Rightarrow> ''base_domain'' | Some v \<Rightarrow> v)"
    and "T = trace (create_wls_domain environ u p) r"
  shows "take 3 T = take (length T)
           [ReadTemplate ''/u01/oracle/wlserver/common/templates/wls/wls.jar'',
            SetAttr ''Name'' (Str dn), SetOption ''DomainName'' dn] \<and>
         (\<forall>x. SetOption ''DomainName'' x \<in> set T \<longrightarrow> x = dn) \<and>
         (\<forall>x. WriteDomain x \<in> set T \<longrightarrow> x = ''/u01/oracle/user_projects/domains/'' @ dn) \<and>
         (outcome (create_wls_domain environ u p) r = Inr () \<longrightarrow>
            SetAttr ''Name'' (Str dn) \<in> set T \<and> SetOption ''DomainName'' dn \<in> set T \<and>
            WriteDomain (''/u01/oracle/user_projects/domains/'' @ dn) \<in> set T)"
proof -
  have dn: "domain_name environ = dn"
    using assms(1) by (simp add: domain_name_def environ_get_def)
  have Tk: "T = take (length T) (trace (create_wls_domain environ u p) (quiet r))"
    unfolding assms(2)
    by (subst (1 2) faithful_trace [OF faithful_create_wls_domain]) (rule until_raise_take)
  have sub: "set T \<subseteq> set (trace (create_wls_domain environ u p) (quiet r))"
    unfolding assms(2) by (rule domain_trace_subset)
  show ?thesis
  proof (cases rule: domain_quiet_trace_cases [of environ u p r])
    case no_calls
    with Tk have T: "T = []" by simp
    have "outcome (create_wls_domain environ u p) r \<noteq> Inr ()"
    proof
      assume "outcome (create_wls_domain environ u p) r = Inr ()"
      then obtain lp ap where "admin_listen_port environ = Inr lp" "administration_port environ = Inr ap"
        by (rule domain_completed)
      from domain_quiet(1) [OF this, of u p r] no_calls show False by simp
    qed
    with T show ?thesis by simp
  next
    case (calls lp ap)
    note L = domain_quiet(1) [OF calls, of u p r]
    have first: "take 3 T = take (length T)
           [ReadTemplate ''/u01/oracle/wlserver/common/templates/wls/wls.jar'',
            SetAttr ''Name'' (Str dn), SetOption ''DomainName'' dn]"
      by (subst Tk) (simp add: L dn take_of_prefix3)
    have only: "(\<forall>x. SetOption ''DomainName'' x \<in> set T \<longrightarrow> x = dn) \<and>
         (\<forall>x. WriteDomain x \<in> set T \<longrightarrow> x = ''/u01/oracle/user_projects/domains/'' @ dn)"
      using sub unfolding L by (auto simp: dn domain_path_def split: if_splits)
    have completed: "SetAttr ''Name'' (Str dn) \<in> set T \<and> SetOption ''DomainName'' dn \<in> set T \<and>
            WriteDomain (''/u01/oracle/user_projects/domains/'' @ dn) \<in> set T"
      if "outcome (create_wls_domain environ u p) r = Inr ()"
    proof -
      from completed_run [OF faithful_create_wls_domain that]
      have "T = trace (create_wls_domain environ u p) (quiet r)" by (simp add: assms(2))
      then show ?thesis by (simp add: L dn domain_path_def)
    qed
    from first only completed show ?thesis by blast
  qed
qed

lemma flag_enabled:
  "environ ''ADMINISTRATION_PORT_ENABLED'' \<noteq> Some ''false'' \<Longrightarrow> administration_port_enabled environ \<noteq> ''false''"
  by (cases "environ ''ADMINISTRATION_PORT_ENABLED''") (simp_all add: administration_port_enabled_def environ_get_def)

lemma domain_trace_take:
  "trace (create_wls_domain environ u p) r =
     take (length (trace (create_wls_domain environ u p) r)) (trace (create_wls_domain environ u p) (quiet r))"
  by (subst (1 2) faithful_trace [OF faithful_create_wls_domain]) (rule until_raise_take)

text \<open>
  Claim C8. No run ever sets 'AdministrationPortEnabled' to anything but the string 'false'.
  When ADMINISTRATION_PORT_ENABLED is not "false", a call that follows the set of
  'AdministrationPort' (which carries the configured port) is the set of
  'AdministrationPortEnabled' to 'false', and a run that completes has issued both, as its
  fourth and fifth call.
\<close>

theorem administration_port_enabled_is_set_false:
  assumes "T = trace (create_wls_domain environ u p) r"
  shows "(\<forall>x. SetAttr ''AdministrationPortEnabled'' x \<in> set T \<longrightarrow> x = Str ''false'') \<and>
         (environ ''ADMINISTRATION_PORT_ENABLED'' \<noteq> Some ''false'' \<longrightarrow>
            (\<forall>i x. Suc i < length T \<and> T ! i = SetAttr ''AdministrationPort'' x \<longrightarrow>
                   (\<exists>ap. administration_port environ = Inr ap \<and> x = Num ap) \<and>
                   T ! Suc i = SetAttr ''AdministrationPortEnabled'' (Str ''false'')) \<and>
            (outcome (create_wls_domain environ u p) r = Inr () \<longrightarrow>
               (\<exists>ap. administration_port environ = Inr ap \<and>
                     T ! 3 = SetAttr ''AdministrationPort'' (Num ap) \<and>
                     T ! 4 = SetAttr ''AdministrationPortEnabled'' (Str ''false''))))"
proof -
  have sub: "set T \<subseteq> set (trace (create_wls_domain environ u p) (quiet r))"
    unfolding assms by (rule domain_trace_subset)
  have Tk: "T = take (length T) (trace (create_wls_domain environ u p) (quiet r))"
    unfolding assms by (rule domain_trace_take)
  show ?thesis
  proof (cases rule: domain_quiet_trace_cases [of environ u p r])
    case no_calls
    with Tk have T: "T = []" by simp
    have "outcome (create_wls_domain environ u p) r \<noteq> Inr ()"
    proof
      assume "outcome (create_wls_domain environ u p) r = Inr ()"
      then obtain lp ap where "admin_listen_port environ = Inr lp" "administration_port environ = Inr ap"
        by (rule domain_completed)
      from domain_quiet(1) [OF this, of u p r] no_calls show False by simp
    qed
    with T show ?thesis by simp
  next
    case (calls lp ap)
    note L = domain_quiet(1) [OF calls, of u p r]
    have always: "\<forall>x. SetAttr ''AdministrationPortEnabled'' x \<in> set T \<longrightarrow> x = Str ''false''"
      using sub unfolding L by (auto split: if_splits)
    have enabled: "(\<forall>i x. Suc i < length T \<and> T ! i = SetAttr ''AdministrationPort'' x \<longrightarrow>
                   (\<exists>ap. administration_port environ = Inr ap \<and> x = Num ap) \<and>
                   T ! Suc i = SetAttr ''AdministrationPortEnabled'' (Str ''false'')) \<and>
            (outcome (create_wls_domain environ u p) r = Inr () \<longrightarrow>
               (\<exists>ap. administration_port environ = Inr ap \<and>
                     T ! 3 = SetAttr ''AdministrationPort'' (Num ap) \<and>
                     T ! 4 = SetAttr ''AdministrationPortEnabled'' (Str ''false'')))"
      if on: "environ ''ADMINISTRATION_PORT_ENABLED'' \<noteq> Some ''false''"
    proof -
      have flag: "administration_port_enabled environ \<noteq> ''false''" using on by (rule flag_enabled)
      have a: "(\<exists>ap. administration_port environ = Inr ap \<and> x = Num ap) \<and>
               T ! Suc i = SetAttr ''AdministrationPortEnabled'' (Str ''false'')"
        if i: "Suc i < length T" and x: "T ! i = SetAttr ''AdministrationPort'' x" for i x
      proof -
        have len: "length T \<le> 20" by (subst Tk) (simp add: L flag)
        have Ti: "T ! i = trace (create_wls_domain environ u p) (quiet r) ! i"
          and TSi: "T ! Suc i = trace (create_wls_domain environ u p) (quiet r) ! Suc i"
          using i by (subst Tk, simp)+
        from i len have "i < 19" by simp
        then have "i \<in> {0,1,2,3,4,5,6,7,8,9,10,11,12,13,14,15,16,17,18}" by (simp, arith)
        with x show ?thesis unfolding Ti TSi L using flag calls by auto
      qed
      have b: "\<exists>ap. administration_port environ = Inr ap \<and>
                     T ! 3 = SetAttr ''AdministrationPort'' (Num ap) \<and>
                     T ! 4 = SetAttr ''AdministrationPortEnabled'' (Str ''false'')"
        if "outcome (create_wls_domain environ u p) r = Inr ()"
      proof -
        from completed_run [OF faithful_create_wls_domain that]
        have "T = trace (create_wls_domain environ u p) (quiet r)" by (simp add: assms)
        then show ?thesis using flag calls by (simp add: L)
      qed
      from a b show ?thesis by blast
    qed
    from always enabled show ?thesis by blast
  qed
qed

text \<open>
  Claim C9. For every value of ADMINISTRATION_PORT_ENABLED other than exactly "false", a
  run issues the same calls and ends the same way as with the variable unset and as with
  the value "true"; a run that completes has issued the port assignment and the three
  calls of the SSL block.
\<close>

theorem only_exact_false_disables:
  assumes "v \<noteq> ''false''" and "T = trace (create_wls_domain (environ(''ADMINISTRATION_PORT_ENABLED'' \<mapsto> v)) u p) r"
  shows "T = trace (create_wls_domain (environ(''ADMINISTRATION_PORT_ENABLED'' := None)) u p) r \<and>
         T = trace (create_wls_domain (environ(''ADMINISTRATION_PORT_ENABLED'' \<mapsto> ''true'')) u p) r \<and>
         outcome (create_wls_domain (environ(''ADMINISTRATION_PORT_ENABLED'' \<mapsto> v)) u p) r =
           outcome (create_wls_domain (environ(''ADMINISTRATION_PORT_ENABLED'' := None)) u p) r \<and>
         (outcome (create_wls_domain (environ(''ADMINISTRATION_PORT_ENABLED'' \<mapsto> v)) u p) r = Inr () \<longrightarrow>
            (\<exists>ap. administration_port environ = Inr ap \<and>
                  SetAttr ''AdministrationPort'' (Num ap) \<in> set T) \<and>
            SetAttr ''AdministrationPortEnabled'' (Str ''false'') \<in> set T \<and>
            Create (admin_name environ) ''SSL'' \<in> set T \<and>
            Cd (''SSL/'' @ admin_name environ) \<in> set T \<and>
            SetAttr ''Enabled'' (Str ''True'') \<in> set T)"
proof -
  let ?e = "environ(''ADMINISTRATION_PORT_ENABLED'' \<mapsto> v)"
  have unset: "trace (create_wls_domain ?e u p) r =
                 trace (create_wls_domain (environ(''ADMINISTRATION_PORT_ENABLED'' := None)) u p) r \<and>
               outcome (create_wls_domain ?e u p) r =
                 outcome (create_wls_domain (environ(''ADMINISTRATION_PORT_ENABLED'' := None)) u p) r"
    by (rule domain_same_flag) (simp_all add: other_settings flag_setting assms(1))
  have true: "trace (create_wls_domain ?e u p) r =
                 trace (create_wls_domain (environ(''ADMINISTRATION_PORT_ENABLED'' \<mapsto> ''true'')) u p) r \<and>
               outcome (create_wls_domain ?e u p) r =
                 outcome (create_wls_domain (environ(''ADMINISTRATION_PORT_ENABLED'' \<mapsto> ''true'')) u p) r"
    by (rule domain_same_flag) (simp_all add: other_settings flag_setting assms(1))
  have steps: "(\<exists>ap. administration_port environ = Inr ap \<and>
                  SetAttr ''AdministrationPort'' (Num ap) \<in> set T) \<and>
            SetAttr ''AdministrationPortEnabled'' (Str ''false'') \<in> set T \<and>
            Create (admin_name environ) ''SSL'' \<in> set T \<and>
            Cd (''SSL/'' @ admin_name environ) \<in> set T \<and>
            SetAttr ''Enabled'' (Str ''True'') \<in> set T"
    if ok: "outcome (create_wls_domain ?e u p) r = Inr ()"
  proof -
    from ok obtain lp ap where p: "admin_listen_port ?e = Inr lp" "administration_port ?e = Inr ap"
      and t: "trace (create_wls_domain ?e u p) r = trace (create_wls_domain ?e u p) (quiet r)"
      by (rule domain_completed)
    from p have "administration_port environ = Inr ap" by (simp add: other_settings)
    then show ?thesis
      unfolding assms(2) t domain_quiet(1) [OF p]
      by (simp add: other_settings flag_setting assms(1))
  qed
  from unset true steps show ?thesis unfolding assms(2) by blast
qed


section \<open>The messaging script\<close>

lemmas script_defs = setupTestJMSQueue_def createJMSServer_def createJMSModule_def
  createJMSQueue_def createDistributedJMSQueue_def createJMSFactory_def addMemberQueue_def
  getJMSModulePath_def sub_deployment_name_def jms_module_name_def queue_name_def
  factory_name_def jms_server_name_def

lemma messaging_quiet:
  "\<exists>adm target1 listing2 module target2 out.
   setupTestJMSQueue environ (start (quiet r)) =
     (Inr (), \<lparr>server = quiet r,
        issued = provisioning_calls (first_listing r = []) adm target1 listing2 module target2,
        stdout = out\<rparr>)"
  by (cases "first_listing r = []")
    (simp_all add: provisioning_calls_def first_listing_def start_def script_defs run_simps, blast+)

lemma messaging_quiet_outcome: "outcome (setupTestJMSQueue environ) (quiet r) = Inr ()"
  using messaging_quiet [of environ r] by (auto simp: outcome_def)

lemma messaging_quiet_trace:
  obtains adm target1 listing2 module target2 where
    "trace (setupTestJMSQueue environ) (quiet r) =
       provisioning_calls (first_listing r = []) adm target1 listing2 module target2"
  using messaging_quiet [of environ r] by (auto simp: trace_def)

lemma test_server_quiet: "quiet (test_server existing (\<lambda>h c. False)) = test_server existing (\<lambda>h c. False)"
  by (simp add: quiet_def test_server_def)

lemma unset_everywhere:
  "domain_name Map.empty = ''base_domain''" "admin_name Map.empty = ''AdminServer''"
  "admin_listen_port Map.empty = Inr 7001" "production_mode Map.empty = ''prod''"
  "administration_port_enabled Map.empty = ''true''" "administration_port Map.empty = Inr 9002"
  "domain_path Map.empty = ''/u01/oracle/user_projects/domains/base_domain''"
  by (simp_all add: domain_name_def admin_name_def admin_listen_port_def production_mode_def
      administration_port_enabled_def administration_port_def environ_get_def domain_path_def
      py_int_7001 py_int_9002)

text \<open>
  Claim C2. Each of the six variables, when unset, takes its documented default:
  base_domain, AdminServer, 7001, prod, true and 9002; with nothing set at all these are
  the values passed to the calls of the script.
\<close>

theorem unset_variables_take_defaults:
  "(environ ''DOMAIN_NAME'' = None \<longrightarrow> domain_name environ = ''base_domain'') \<and>
   (environ ''ADMIN_NAME'' = None \<longrightarrow> admin_name environ = ''AdminServer'') \<and>
   (environ ''ADMIN_LISTEN_PORT'' = None \<longrightarrow> admin_listen_port environ = Inr 7001) \<and>
   (environ ''PRODUCTION_MODE'' = None \<longrightarrow> production_mode environ = ''prod'') \<and>
   (environ ''ADMINISTRATION_PORT_ENABLED'' = None \<longrightarrow> administration_port_enabled environ = ''true'') \<and>
   (environ ''ADMINISTRATION_PORT'' = None \<longrightarrow> administration_port environ = Inr 9002) \<and>
   (environ = Map.empty \<longrightarrow>
      trace (create_wls_domain environ u p) (quiet r) =
        [ReadTemplate ''/u01/oracle/wlserver/common/templates/wls/wls.jar'',
         SetAttr ''Name'' (Str ''base_domain''),
         SetOption ''DomainName'' ''base_domain'',
         SetAttr ''AdministrationPort'' (Num 9002),
         SetAttr ''AdministrationPortEnabled'' (Str ''false''),
         Cd ''/Servers/AdminServer'',
         SetAttr ''Name'' (Str ''AdminServer''),
         SetAttr ''ListenAddress'' (Str ''''),
         SetAttr ''ListenPort'' (Num 7001),
         Create ''AdminServer'' ''SSL'',
         Cd ''SSL/AdminServer'',
         SetAttr ''Enabled'' (Str ''True''),
         Cd ''/Security/base_domain/User/weblogic'',
         Invoke Cmo ''setName'' [Str u],
         Invoke Cmo ''setPassword'' [Str p],
         SetOption ''OverwriteDomain'' ''true'',
         SetOption ''ServerStartMode'' ''prod'',
         WriteDomain ''/u01/oracle/user_projects/domains/base_domain'',
         CloseTemplate,
         Exit])"
proof -
  have vars: "(environ ''DOMAIN_NAME'' = None \<longrightarrow> domain_name environ = ''base_domain'') \<and>
   (environ ''ADMIN_NAME'' = None \<longrightarrow> admin_name environ = ''AdminServer'') \<and>
   (environ ''ADMIN_LISTEN_PORT'' = None \<longrightarrow> admin_listen_port environ = Inr 7001) \<and>
   (environ ''PRODUCTION_MODE'' = None \<longrightarrow> production_mode environ = ''prod'') \<and>
   (environ ''ADMINISTRATION_PORT_ENABLED'' = None \<longrightarrow> administration_port_enabled environ = ''true'') \<and>
   (environ ''ADMINISTRATION_PORT'' = None \<longrightarrow> administration_port environ = Inr 9002)"
    by (simp add: domain_name_def admin_name_def admin_listen_port_def production_mode_def
      administration_port_enabled_def administration_port_def environ_get_def
      py_int_7001 py_int_9002)
  have run: "trace (create_wls_domain Map.empty u p) (quiet r) =
        [ReadTemplate ''/u01/oracle/wlserver/common/templates/wls/wls.jar'',
         SetAttr ''Name'' (Str ''base_domain''),
         SetOption ''DomainName'' ''base_domain'',
         SetAttr ''AdministrationPort'' (Num 9002),
         SetAttr ''AdministrationPortEnabled'' (Str ''false''),
         Cd ''/Servers/AdminServer'',
         SetAttr ''Name'' (Str ''AdminServer''),
         SetAttr ''ListenAddress'' (Str ''''),
         SetAttr ''ListenPort'' (Num 7001),
         Create ''AdminServer'' ''SSL'',
         Cd ''SSL/AdminServer'',
         SetAttr ''Enabled'' (Str ''True''),
         Cd ''/Security/base_domain/User/weblogic'',
         Invoke Cmo ''setName'' [Str u],
         Invoke Cmo ''setPassword'' [Str p],
         SetOption ''OverwriteDomain'' ''true'',
         SetOption ''ServerStartMode'' ''prod'',
         WriteDomain ''/u01/oracle/user_projects/domains/base_domain'',
         CloseTemplate,
         Exit]"
    by (simp add: domain_quiet(1) [OF unset_everywhere(3) unset_everywhere(6)] unset_everywhere)
  from vars run show ?thesis by blast
qed

theorem unset_variables_take_defaults_witness:
  "domain_name Map.empty = ''base_domain'' \<and> admin_name Map.empty = ''AdminServer'' \<and>
   admin_listen_port Map.empty = Inr 7001 \<and> production_mode Map.empty = ''prod'' \<and>
   administration_port_enabled Map.empty = ''true'' \<and> administration_port Map.empty = Inr 9002 \<and>
   SetAttr ''ListenPort'' (Num 7001) \<in>
     set (trace (create_wls_domain Map.empty ''weblogic'' ''welcome1'') (quiet (test_server [] (\<lambda>h c. False))))"
  using unset_variables_take_defaults
    [of "Map.empty" "''weblogic''" "''welcome1''" "test_server [] (\<lambda>h c. False)"]
  by simp

theorem disabled_port_skips_port_and_ssl_witness:
  "[''ADMINISTRATION_PORT_ENABLED'' \<mapsto> ''false''] ''ADMINISTRATION_PORT_ENABLED'' = Some ''false'' \<and>
   SetAttr ''AdministrationPort'' (Num 9002) \<notin>
     set (trace (create_wls_domain [''ADMINISTRATION_PORT_ENABLED'' \<mapsto> ''false''] ''weblogic'' ''welcome1'')
            (test_server [] (\<lambda>h c. False))) \<and>
   Create ''AdminServer'' ''SSL'' \<notin>
     set (trace (create_wls_domain [''ADMINISTRATION_PORT_ENABLED'' \<mapsto> ''false''] ''weblogic'' ''welcome1'')
            (test_server [] (\<lambda>h c. False))) \<and>
   SetAttr ''Enabled'' (Str ''True'') \<notin>
     set (trace (create_wls_domain [''ADMINISTRATION_PORT_ENABLED'' \<mapsto> ''false''] ''weblogic'' ''welcome1'')
            (test_server [] (\<lambda>h c. False))) \<and>
   trace (create_wls_domain [''ADMINISTRATION_PORT_ENABLED'' \<mapsto> ''false''] ''weblogic'' ''welcome1'')
       (test_server [] (\<lambda>h c. False)) =
     filter (\<lambda>c. \<not> guarded_step c)
       (trace (create_wls_domain [''ADMINISTRATION_PORT_ENABLED'' \<mapsto> ''true''] ''weblogic'' ''welcome1'')
          (test_server [] (\<lambda>h c. False)))"
proof -
  have h: "[''ADMINISTRATION_PORT_ENABLED'' \<mapsto> ''false''] ''ADMINISTRATION_PORT_ENABLED'' = Some ''false''"
    by simp
  note t = disabled_port_skips_port_and_ssl
    [of "[''ADMINISTRATION_PORT_ENABLED'' \<mapsto> ''false'']" "''weblogic''" "''welcome1''"
      "test_server [] (\<lambda>h c. False)", OF h]
  from t have f: "trace (create_wls_domain [''ADMINISTRATION_PORT_ENABLED'' \<mapsto> ''false''] ''weblogic'' ''welcome1'')
       (quiet (test_server [] (\<lambda>h c. False))) =
     filter (\<lambda>c. \<not> guarded_step c)
       (trace (create_wls_domain ([''ADMINISTRATION_PORT_ENABLED'' \<mapsto> ''false'']
            (''ADMINISTRATION_PORT_ENABLED'' := Some ''true'')) ''weblogic'' ''welcome1'')
          (quiet (test_server [] (\<lambda>h c. False))))"
    by blast
  from h t f show ?thesis by (simp add: test_server_quiet)
qed

lemma domain_on_test_server:
  assumes "admin_listen_port environ = Inr lp" "administration_port environ = Inr ap"
  shows "outcome (create_wls_domain environ u p) (test_server existing (\<lambda>h c. False)) = Inr ()"
  using domain_quiet(2) [OF assms, of u p "test_server existing (\<lambda>h c. False)"]
  by (simp add: test_server_quiet)

lemma ports_unset:
  "environ ''ADMIN_LISTEN_PORT'' = None \<Longrightarrow> admin_listen_port environ = Inr 7001"
  "environ ''ADMINISTRATION_PORT'' = None \<Longrightarrow> administration_port environ = Inr 9002"
  by (simp_all add: admin_listen_port_def administration_port_def environ_get_def
      py_int_7001 py_int_9002)

theorem domain_name_drives_name_option_and_path_witness:
  "outcome (create_wls_domain [''DOMAIN_NAME'' \<mapsto> ''helidon''] ''weblogic'' ''welcome1'')
     (test_server [] (\<lambda>h c. False)) = Inr () \<and>
   SetAttr ''Name'' (Str ''helidon'') \<in>
     set (trace (create_wls_domain [''DOMAIN_NAME'' \<mapsto> ''helidon''] ''weblogic'' ''welcome1'')
            (test_server [] (\<lambda>h c. False))) \<and>
   SetOption ''DomainName'' ''helidon'' \<in>
     set (trace (create_wls_domain [''DOMAIN_NAME'' \<mapsto> ''helidon''] ''weblogic'' ''welcome1'')
            (test_server [] (\<lambda>h c. False))) \<and>
   WriteDomain ''/u01/oracle/user_projects/domains/helidon'' \<in>
     set (trace (create_wls_domain [''DOMAIN_NAME'' \<mapsto> ''helidon''] ''weblogic'' ''welcome1'')
            (test_server [] (\<lambda>h c. False)))"
proof -
  have o: "outcome (create_wls_domain [''DOMAIN_NAME'' \<mapsto> ''helidon''] ''weblogic'' ''welcome1'')
     (test_server [] (\<lambda>h c. False)) = Inr ()"
    by (rule domain_on_test_server [OF ports_unset]) simp_all
  from o domain_name_drives_name_option_and_path
    [OF refl refl, of "[''DOMAIN_NAME'' \<mapsto> ''helidon'']" "''weblogic''" "''welcome1''"
      "test_server [] (\<lambda>h c. False)"]
  show ?thesis by simp
qed

theorem administration_port_enabled_is_set_false_witness:
  "outcome (create_wls_domain Map.empty ''weblogic'' ''welcome1'') (test_server [] (\<lambda>h c. False)) = Inr () \<and>
   trace (create_wls_domain Map.empty ''weblogic'' ''welcome1'') (test_server [] (\<lambda>h c. False)) ! 3 =
     SetAttr ''AdministrationPort'' (Num 9002) \<and>
   trace (create_wls_domain Map.empty ''weblogic'' ''welcome1'') (test_server [] (\<lambda>h c. False)) ! 4 =
     SetAttr ''AdministrationPortEnabled'' (Str ''false'')"
proof -
  have o: "outcome (create_wls_domain Map.empty ''weblogic'' ''welcome1'')
     (test_server [] (\<lambda>h c. False)) = Inr ()"
    by (rule domain_on_test_server [OF ports_unset]) simp_all
  from o administration_port_enabled_is_set_false
    [OF refl, of "Map.empty" "''weblogic''" "''welcome1''" "test_server [] (\<lambda>h c. False)"]
  show ?thesis by (simp add: unset_everywhere)
qed

theorem only_exact_false_disables_witness:
  "''FALSE'' \<noteq> ''false'' \<and>
   trace (create_wls_domain [''ADMINISTRATION_PORT_ENABLED'' \<mapsto> ''FALSE''] ''weblogic'' ''welcome1'')
       (test_server [] (\<lambda>h c. False)) =
     trace (create_wls_domain Map.empty ''weblogic'' ''welcome1'') (test_server [] (\<lambda>h c. False)) \<and>
   outcome (create_wls_domain [''ADMINISTRATION_PORT_ENABLED'' \<mapsto> ''FALSE''] ''weblogic'' ''welcome1'')
       (test_server [] (\<lambda>h c. False)) = Inr () \<and>
   SetAttr ''AdministrationPort'' (Num 9002) \<in>
     set (trace (create_wls_domain [''ADMINISTRATION_PORT_ENABLED'' \<mapsto> ''FALSE''] ''weblogic'' ''welcome1'')
            (test_server [] (\<lambda>h c. False))) \<and>
   Create ''AdminServer'' ''SSL'' \<in>
     set (trace (create_wls_domain [''ADMINISTRATION_PORT_ENABLED'' \<mapsto> ''FALSE''] ''weblogic'' ''welcome1'')
            (test_server [] (\<lambda>h c. False))) \<and>
   SetAttr ''Enabled'' (Str ''True'') \<in>
     set (trace (create_wls_domain [''ADMINISTRATION_PORT_ENABLED'' \<mapsto> ''FALSE''] ''weblogic'' ''welcome1'')
            (test_server [] (\<lambda>h c. False)))"
proof -
  have v: "''FALSE'' \<noteq> ''false''" by simp
  have o: "outcome (create_wls_domain [''ADMINISTRATION_PORT_ENABLED'' \<mapsto> ''FALSE''] ''weblogic'' ''welcome1'')
     (test_server [] (\<lambda>h c. False)) = Inr ()"
    by (rule domain_on_test_server [OF ports_unset]) simp_all
  note t = only_exact_false_disables
    [OF v refl, of "Map.empty" "''weblogic''" "''welcome1''" "test_server [] (\<lambda>h c. False)"]
  have same: "trace (create_wls_domain [''ADMINISTRATION_PORT_ENABLED'' \<mapsto> ''FALSE''] ''weblogic'' ''welcome1'')
       (test_server [] (\<lambda>h c. False)) =
     trace (create_wls_domain Map.empty ''weblogic'' ''welcome1'') (test_server [] (\<lambda>h c. False))"
    using t [THEN conjunct1] by simp
  have steps: "SetAttr ''AdministrationPort'' (Num 9002) \<in>
     set (trace (create_wls_domain [''ADMINISTRATION_PORT_ENABLED'' \<mapsto> ''FALSE''] ''weblogic'' ''welcome1'')
            (test_server [] (\<lambda>h c. False))) \<and>
   Create ''AdminServer'' ''SSL'' \<in>
     set (trace (create_wls_domain [''ADMINISTRATION_PORT_ENABLED'' \<mapsto> ''FALSE''] ''weblogic'' ''welcome1'')
            (test_server [] (\<lambda>h c. False))) \<and>
   SetAttr ''Enabled'' (Str ''True'') \<in>
     set (trace (create_wls_domain [''ADMINISTRATION_PORT_ENABLED'' \<mapsto> ''FALSE''] ''weblogic'' ''welcome1'')
            (test_server [] (\<lambda>h c. False)))"
    using t [THEN conjunct2, THEN conjunct2, THEN conjunct2, THEN mp, OF o]
    by (simp add: unset_everywhere)
  from v o same steps show ?thesis by blast
qed

end
